theory Spec2Isabelle
  imports Main "HOL-Library.Sublist" "HOL-Library.AList"
begin

section \<open>Dataset loaders of \<open>scripts/dataloaders.py\<close>\<close>

text \<open>
  The module holds two generations of the same three loaders. The classes of the first
  one (lines 21-85) build a loader from a path and a plain dictionary \<open>dataset_args\<close> whose
  key \<open>num\<close> caps the result. The classes of the second one (lines 118-190) build every
  loader from a path and a configuration object whose key \<open>dataset_head|head\<close> caps the
  result; \<open>load_testdata(args)\<close> (lines 192-199) dispatches to them. The definitions of the
  first generation carry the suffix \<open>_v1\<close>, those of the second keep the source's names.

  Loaded as one module, the later definitions of \<open>DataLoader\<close>, of the three loaders and
  of \<open>load_testdata\<close> replace the earlier ones under the same names.
  \<open>DataLoaderFactory.create\<close> (lines 94-101) is defined once and looks the three class names
  up when it runs, so the classes it calls are those of the second generation; it is
  embedded that way.
\<close>

subsection \<open>Python values\<close>

text \<open>
  The values a configuration, a decoded JSON document or a registry item can hold.
  Floating point numbers are not represented.
\<close>

datatype pyval =
    PNone
  | PBool bool
  | PInt int
  | PStr string
  | PList "pyval list"
  | PDict "(string \<times> pyval) list"

datatype error =
    FileNotFoundError string
  | JSONDecodeError string
  | RegistryError string
  | KeyError string
  | TypeError
  | AttributeError

text \<open>Truth value of an object, as \<open>if x:\<close> and \<open>x or y\<close> test it.\<close>

fun truthy :: "pyval \<Rightarrow> bool" where
  "truthy PNone = False"
| "truthy (PBool b) = b"
| "truthy (PInt n) = (n \<noteq> 0)"
| "truthy (PStr s) = (s \<noteq> [])"
| "truthy (PList xs) = (xs \<noteq> [])"
| "truthy (PDict kvs) = (kvs \<noteq> [])"

definition py_or :: "pyval \<Rightarrow> pyval \<Rightarrow> pyval" where
  "py_or x y = (if truthy x then x else y)"

text \<open>
  The integer a value stands for where Python wants one (\<open>n + 1\<close> as a bound of \<open>range\<close>,
  the bound of a slice): an \<open>int\<close>, or a \<open>bool\<close> read as 0 or 1. Every other value
  raises \<open>TypeError\<close> there.
\<close>

fun as_int :: "pyval \<Rightarrow> int option" where
  "as_int (PInt n) = Some n"
| "as_int (PBool b) = Some (if b then 1 else 0)"
| "as_int PNone = None"
| "as_int (PStr s) = None"
| "as_int (PList xs) = None"
| "as_int (PDict kvs) = None"

text \<open>\<open>str(i)\<close> of an integer, as an f-string renders \<open>{i}\<close>.\<close>

definition digit_char :: "nat \<Rightarrow> char" where
  "digit_char d = ''0123456789'' ! d"

fun str_nat :: "nat \<Rightarrow> string" where
  "str_nat n = (if n < 10 then [digit_char n] else str_nat (n div 10) @ [digit_char (n mod 10)])"

declare str_nat.simps [simp del]

definition str_int :: "int \<Rightarrow> string" where
  "str_int i = (if i < 0 then CHR ''-'' # str_nat (nat (- i)) else str_nat (nat i))"

text \<open>
  \<open>str.isspace\<close> on one character and \<open>str.strip()\<close>. A character is a code point
  below 256; the white space among those is TAB, LF, VT, FF, CR, FS, GS, RS, US, space,
  NEL and the no-break space.
\<close>

definition py_isspace :: "char \<Rightarrow> bool" where
  "py_isspace c = (of_char c \<in> set [9, 10, 11, 12, 13, 28, 29, 30, 31, 32, 133, 160 :: nat])"

definition py_strip :: "string \<Rightarrow> string" where
  "py_strip s = rev (dropWhile py_isspace (rev (dropWhile py_isspace s)))"

text \<open>\<open>s.endswith(suf)\<close>.\<close>

definition endswith :: "string \<Rightarrow> string \<Rightarrow> bool" where
  "endswith s suf = (length suf \<le> length s \<and> drop (length s - length suf) s = suf)"

text \<open>
  The slice \<open>xs[:k]\<close>: the first \<open>k\<close> elements, and for a negative \<open>k\<close> all but the last
  \<open>-k\<close> elements.
\<close>

definition slice_to :: "'a list \<Rightarrow> int \<Rightarrow> 'a list" where
  "slice_to xs k = (if k < 0 then take (length xs - nat (- k)) xs else take (nat k) xs)"

text \<open>
  \<open>dataset if cap is None else dataset[:cap]\<close>, the last statement before \<open>return\<close> of the
  file loader and of the registry loader in both generations.
\<close>

definition take_head :: "pyval list \<Rightarrow> pyval \<Rightarrow> error + pyval list" where
  "take_head dataset cap =
     (if cap = PNone then Inr dataset
      else case as_int cap of
             Some k \<Rightarrow> Inr (slice_to dataset k)
           | None \<Rightarrow> Inl TypeError)"

text \<open>\<open>d.get(key, default)\<close> on a dictionary.\<close>

type_synonym dict = "string \<rightharpoonup> pyval"

definition dict_get :: "dict \<Rightarrow> string \<Rightarrow> pyval \<Rightarrow> pyval" where
  "dict_get d k dflt = (case d k of Some v \<Rightarrow> v | None \<Rightarrow> dflt)"

text \<open>
  The dictionary comprehension \<open>{k: v for k, v in item.items()}\<close>: the pairs are stored
  one after the other; a key seen again keeps its place and takes the later value.
\<close>

definition dict_of_items :: "(string \<times> pyval) list \<Rightarrow> pyval" where
  "dict_of_items kvs = PDict (foldl (\<lambda>d (k, v). AList.update k v d) [] kvs)"

subsection \<open>The configuration object of the second generation\<close>

text \<open>
  Modelled from the spec: the class of the configuration object \<open>args\<close> is not part of the
  module. Its subscript takes a key made of alternatives separated by \<open>|\<close>; the first
  alias the configuration holds wins, otherwise the stated default (the alternative
  written \<open>=value\<close>) is returned, and \<open>None\<close> when there is none.
\<close>

type_synonym config = "string \<rightharpoonup> pyval"

fun split_bar :: "string \<Rightarrow> string list" where
  "split_bar [] = [[]]"
| "split_bar (c # cs) =
     (if c = CHR ''|'' then [] # split_bar cs
      else case split_bar cs of
             p # ps \<Rightarrow> (c # p) # ps
           | [] \<Rightarrow> [[c]])"

definition is_default :: "string \<Rightarrow> bool" where
  "is_default p = (case p of c # _ \<Rightarrow> c = CHR ''='' | [] \<Rightarrow> False)"

definition args_get :: "config \<Rightarrow> string \<Rightarrow> pyval" where
  "args_get args key =
     (let parts = split_bar key;
          aliases = filter (\<lambda>p. \<not> is_default p) parts;
          defaults = filter is_default parts
      in case List.map_filter args aliases of
           v # _ \<Rightarrow> v
         | [] \<Rightarrow> (case defaults of d # _ \<Rightarrow> PStr (tl d) | [] \<Rightarrow> PNone))"

subsection \<open>The world outside the module\<close>

text \<open>
  What the loaders reach outside the module: the file system (a path that exists gives the
  lines that iterating over the open file yields, line ends included), the decoder
  \<open>json.loads\<close> (\<open>Inl\<close> carries the message of its \<open>JSONDecodeError\<close>) and the registry
  collaborator \<open>load_dataset(path, [subset], split=split)\<close> (\<open>Inl\<close> carries the message of
  its failure; an item is the sequence of pairs its \<open>items()\<close> yields). The optional
  positional argument is \<open>None\<close> when the call leaves it out.
\<close>

record world =
  files :: "string \<rightharpoonup> string list"
  json_loads :: "string \<Rightarrow> string + pyval"
  load_dataset :: "string \<Rightarrow> pyval option \<Rightarrow> pyval \<Rightarrow> string + (string \<times> pyval) list list"

text \<open>The calls a loader makes on the world, in the order it makes them.\<close>

datatype event =
    Open string
  | LoadDataset string "pyval option" pyval

type_synonym outcome = "event list \<times> (error + pyval list)"

subsection \<open>Parts shared by both generations\<close>

text \<open>The dictionary literal appended in the loop of \<open>TestDataLoader.load\<close>.\<close>

definition test_record :: "int \<Rightarrow> pyval" where
  "test_record i = PDict
     [(''task_id'', PStr (''test_'' @ str_int i)),
      (''prompt'', PStr (''test_prompt_'' @ str_int i)),
      (''canonical_solution'', PStr (''test_solution_'' @ str_int i)),
      (''test'', PStr (''test_test_'' @ str_int i)),
      (''entry_point'', PStr (''test_entry_'' @ str_int i))]"

text \<open>
  \<open>for i in range(1, n + 1): test_data.append({...})\<close>, starting from the empty list.
\<close>

definition test_loop :: "int \<Rightarrow> pyval list" where
  "test_loop n = foldl (\<lambda>test_data i. test_data @ [test_record i]) [] [1..n]"

text \<open>
  \<open>[json.loads(line.strip()) for line in f]\<close>: the first line the decoder rejects ends
  the comprehension with its error.
\<close>

fun parse_lines :: "(string \<Rightarrow> string + pyval) \<Rightarrow> string list \<Rightarrow> error + pyval list" where
  "parse_lines dec [] = Inr []"
| "parse_lines dec (line # rest) =
     (case dec (py_strip line) of
        Inl msg \<Rightarrow> Inl (JSONDecodeError msg)
      | Inr v \<Rightarrow> (case parse_lines dec rest of
                   Inl e \<Rightarrow> Inl e
                 | Inr vs \<Rightarrow> Inr (v # vs)))"

text \<open>
  The \<open>try\<close> block of \<open>JSONDataLoader.load\<close> with its handler: a missing file is raised
  again as \<open>FileNotFoundError\<close> with the module's own message.
\<close>

definition read_jsonl :: "world \<Rightarrow> string \<Rightarrow> error + pyval list" where
  "read_jsonl w path =
     (case files w path of
        None \<Rightarrow> Inl (FileNotFoundError (''The file '' @ path @ '' does not exist.''))
      | Some ls \<Rightarrow> parse_lines (json_loads w) ls)"

text \<open>
  The two calls of the collaborator in \<open>HFDataLoader.load\<close> and the normalisation of what
  it returns.
\<close>

definition fetch :: "world \<Rightarrow> string \<Rightarrow> pyval \<Rightarrow> pyval \<Rightarrow> event list \<times> (error + pyval list)" where
  "fetch w path subset_arg split_arg =
     (let positional = (if truthy subset_arg then Some subset_arg else None)
      in ([LoadDataset path positional split_arg],
          case load_dataset w path positional split_arg of
            Inl msg \<Rightarrow> Inl (RegistryError msg)
          | Inr dataset \<Rightarrow> Inr (map dict_of_items dataset)))"

subsection \<open>Second generation: loaders built from the configuration object\<close>

text \<open>The fields \<open>DataLoader.__init__\<close> sets (lines 121-124).\<close>

record DataLoader =
  dataset_path :: string
  args :: config
  head :: pyval

definition DataLoader_init :: "string \<Rightarrow> config \<Rightarrow> DataLoader" where
  "DataLoader_init path cfg =
     \<lparr>dataset_path = path, args = cfg, head = args_get cfg ''dataset_head|head''\<rparr>"

text \<open>\<open>TestDataLoader.load\<close> (lines 143-154).\<close>

definition TestDataLoader_load :: "DataLoader \<Rightarrow> outcome" where
  "TestDataLoader_load self =
     (let n = py_or (head self) (PInt 10)
      in ([], case as_int n of
                None \<Rightarrow> Inl TypeError
              | Some k \<Rightarrow> Inr (test_loop k)))"

text \<open>\<open>JSONDataLoader.load\<close> (lines 165-173).\<close>

definition JSONDataLoader_load :: "world \<Rightarrow> DataLoader \<Rightarrow> outcome" where
  "JSONDataLoader_load w self =
     ([Open (dataset_path self)],
      case read_jsonl w (dataset_path self) of
        Inl e \<Rightarrow> Inl e
      | Inr dataset \<Rightarrow> take_head dataset (head self))"

text \<open>\<open>HFDataLoader.load\<close> (lines 179-190).\<close>

definition HFDataLoader_load :: "world \<Rightarrow> DataLoader \<Rightarrow> outcome" where
  "HFDataLoader_load w self =
     (let split_arg = args_get (args self) ''split|=test'';
          subset_arg = args_get (args self) ''subset''
      in case fetch w (dataset_path self) subset_arg split_arg of
           (evs, Inl e) \<Rightarrow> (evs, Inl e)
         | (evs, Inr dataset) \<Rightarrow> (evs, take_head dataset (head self)))"

text \<open>
  \<open>load_testdata(args)\<close> (lines 192-199). Only a string has \<open>endswith\<close>: any other
  identifier that is not \<open>None\<close> raises \<open>AttributeError\<close>.
\<close>

definition load_testdata :: "world \<Rightarrow> config \<Rightarrow> outcome" where
  "load_testdata w cfg =
     (case args_get cfg ''dataset_path|dataset'' of
        PNone \<Rightarrow> TestDataLoader_load (DataLoader_init ''dataset/dummy'' cfg)
      | PStr path \<Rightarrow>
          if endswith path ''.jsonl'' then JSONDataLoader_load w (DataLoader_init path cfg)
          else HFDataLoader_load w (DataLoader_init path cfg)
      | _ \<Rightarrow> ([], Inl AttributeError))"

subsection \<open>First generation: loaders built from a path and a dictionary\<close>

text \<open>
  An instance of one of the three classes with the fields its \<open>__init__\<close> sets:
  \<open>dataset_args\<close> and \<open>dataset_num\<close>, after \<open>dataset_path\<close> for the two loaders that
  have one.
\<close>

datatype loader_v1 =
    TestDataLoader_v1 dict pyval
  | JSONDataLoader_v1 string dict pyval
  | HFDataLoader_v1 string dict pyval

text \<open>\<open>dataset_args if dataset_args is not None else {}\<close>.\<close>

definition args_or_empty :: "dict option \<Rightarrow> dict" where
  "args_or_empty dataset_args = (case dataset_args of Some d \<Rightarrow> d | None \<Rightarrow> Map.empty)"

text \<open>The constructors (lines 24-26, 47-50 and 69-72).\<close>

definition TestDataLoader_init_v1 :: "dict option \<Rightarrow> loader_v1" where
  "TestDataLoader_init_v1 dataset_args =
     (let d = args_or_empty dataset_args
      in TestDataLoader_v1 d (dict_get d ''num'' (PInt 2)))"

definition JSONDataLoader_init_v1 :: "string \<Rightarrow> dict option \<Rightarrow> loader_v1" where
  "JSONDataLoader_init_v1 path dataset_args =
     (let d = args_or_empty dataset_args
      in JSONDataLoader_v1 path d (dict_get d ''num'' PNone))"

definition HFDataLoader_init_v1 :: "string \<Rightarrow> dict option \<Rightarrow> loader_v1" where
  "HFDataLoader_init_v1 path dataset_args =
     (let d = args_or_empty dataset_args
      in HFDataLoader_v1 path d (dict_get d ''num'' PNone))"

text \<open>
  The three \<open>load\<close> methods (lines 28-38, 52-60 and 74-85), chosen by the class of the
  instance.
\<close>

fun load_v1 :: "world \<Rightarrow> loader_v1 \<Rightarrow> outcome" where
  "load_v1 w (TestDataLoader_v1 dataset_args dataset_num) =
     ([], case as_int dataset_num of
            None \<Rightarrow> Inl TypeError
          | Some k \<Rightarrow> Inr (test_loop k))"
| "load_v1 w (JSONDataLoader_v1 path dataset_args dataset_num) =
     ([Open path],
      case read_jsonl w path of
        Inl e \<Rightarrow> Inl e
      | Inr dataset \<Rightarrow> take_head dataset dataset_num)"
| "load_v1 w (HFDataLoader_v1 path dataset_args dataset_num) =
     (let split_arg = dict_get dataset_args ''split'' (PStr ''test'');
          subset_arg = dict_get dataset_args ''subset'' PNone
      in case fetch w path subset_arg split_arg of
           (evs, Inl e) \<Rightarrow> (evs, Inl e)
         | (evs, Inr dataset) \<Rightarrow> (evs, take_head dataset dataset_num))"

subsection \<open>The factory\<close>

text \<open>
  What a caller can hand to the factory as \<open>dataset_args\<close>: nothing (\<open>None\<close>, the default),
  a plain dictionary, or a configuration object. \<open>args[key]\<close> on each of them: \<open>None\<close> has
  no subscript (\<open>TypeError\<close>), a dictionary looks the key up as it is written
  (\<open>KeyError\<close> when it is not there), a configuration object resolves its aliases.
\<close>

datatype args_value =
    ArgsNone
  | ArgsDict dict
  | ArgsConfig config

definition args_subscript :: "args_value \<Rightarrow> string \<Rightarrow> error + pyval" where
  "args_subscript a key =
     (case a of
        ArgsNone \<Rightarrow> Inl TypeError
      | ArgsDict d \<Rightarrow> (case d key of Some v \<Rightarrow> Inr v | None \<Rightarrow> Inl (KeyError key))
      | ArgsConfig cfg \<Rightarrow> Inr (args_get cfg key))"

text \<open>
  The three classes the names stand for when the factory runs, and an object of one of
  them with the fields \<open>DataLoader.__init__\<close> sets: \<open>dataset_path\<close>, \<open>args\<close> and \<open>head\<close>.
\<close>

datatype loader_class = TestDataLoader_class | JSONDataLoader_class | HFDataLoader_class

datatype loader = Loader loader_class string args_value pyval

text \<open>
  A call \<open>cls(dataset_path, args)\<close> of one of the three classes: none of them defines
  \<open>__init__\<close>, so \<open>DataLoader.__init__\<close> (lines 121-124) runs, and
  \<open>args['dataset_head|head']\<close> may raise.
\<close>

definition DataLoader_new :: "loader_class \<Rightarrow> string \<Rightarrow> args_value \<Rightarrow> error + loader" where
  "DataLoader_new cls path a =
     (case args_subscript a ''dataset_head|head'' of
        Inl e \<Rightarrow> Inl e
      | Inr h \<Rightarrow> Inr (Loader cls path a h))"

text \<open>
  \<open>DataLoaderFactory.create\<close> (lines 94-101), with the class its branch calls (\<open>None\<close> when
  the chain of tests ends before a call). The comparison with \<open>"test"\<close> works on any value;
  \<open>endswith\<close> exists on a string only (\<open>AttributeError\<close> otherwise). The first branch
  calls \<open>TestDataLoader(dataset_args)\<close> with one argument where \<open>DataLoader.__init__\<close>
  takes two, which raises \<open>TypeError\<close> whatever the argument is.
\<close>

definition DataLoaderFactory_create ::
  "pyval \<Rightarrow> args_value \<Rightarrow> loader_class option \<times> (error + loader)" where
  "DataLoaderFactory_create path dataset_args =
     (if path = PStr ''test'' then (Some TestDataLoader_class, Inl TypeError)
      else case path of
             PStr p \<Rightarrow>
               if endswith p ''.jsonl''
               then (Some JSONDataLoader_class, DataLoader_new JSONDataLoader_class p dataset_args)
               else (Some HFDataLoader_class, DataLoader_new HFDataLoader_class p dataset_args)
           | _ \<Rightarrow> (None, Inl AttributeError))"

subsection \<open>A small world to run the loaders in\<close>

text \<open>
  The text \<open>{"id": i}\<close> of a one-key JSON object, and the line a file holds for it (the
  text followed by a line feed).
\<close>

definition sample_doc :: "int \<Rightarrow> string" where
  "sample_doc i = ''{'' @ [CHR 0x22] @ ''id'' @ [CHR 0x22] @ '': '' @ str_int i @ ''}''"

definition sample_line :: "int \<Rightarrow> string" where
  "sample_line i = sample_doc i @ [CHR 0x0A]"

text \<open>
  A decoder that knows the five documents \<open>{"id": 1}\<close> to \<open>{"id": 5}\<close> and rejects every
  other text, the empty one included, the way \<open>json.loads\<close> rejects a text that holds no
  value.
\<close>

definition sample_json_loads :: "string \<Rightarrow> string + pyval" where
  "sample_json_loads doc =
     (case map_of (map (\<lambda>i. (sample_doc i, PDict [(''id'', PInt i)])) [1, 2, 3, 4, 5]) doc of
        Some v \<Rightarrow> Inr v
      | None \<Rightarrow> Inl ''Expecting value'')"

definition sample_lines :: "string list" where
  "sample_lines = map sample_line [1, 2, 3, 4, 5]"

definition broken_lines :: "string list" where
  "broken_lines = [sample_line 1, ''{id: 2}'' @ [CHR 0x0A], sample_line 3]"

definition gap_lines :: "string list" where
  "gap_lines = [sample_line 1, [CHR 0x0A], sample_line 2]"

definition sample_items :: "(string \<times> pyval) list list" where
  "sample_items =
     [[(''text'', PStr ''a''), (''label'', PInt 0)],
      [(''text'', PStr ''b''), (''label'', PInt 1)],
      [(''text'', PStr ''c''), (''label'', PInt 0)],
      [(''text'', PStr ''d''), (''label'', PInt 1)]]"

text \<open>
  Three files (five good lines; a line with an unquoted key; a blank line between two good
  ones) and a registry that holds \<open>org/dataset\<close> under the subset \<open>en\<close> and the split
  \<open>validation\<close>, and \<open>org/plain\<close> with no subset under the split \<open>test\<close>.
\<close>

definition sample_world :: world where
  "sample_world =
     \<lparr>files = [''data/sample.jsonl'' \<mapsto> sample_lines,
               ''data/broken.jsonl'' \<mapsto> broken_lines,
               ''data/gap.jsonl'' \<mapsto> gap_lines],
      json_loads = sample_json_loads,
      load_dataset = (\<lambda>path positional split_arg.
         if path = ''org/dataset'' \<and> positional = Some (PStr ''en'')
              \<and> split_arg = PStr ''validation''
         then Inr sample_items
         else if path = ''org/plain'' \<and> positional = None \<and> split_arg = PStr ''test''
         then Inr (take 2 sample_items)
         else Inl ''dataset not found'')\<rparr>"

section \<open>Properties\<close>

subsection \<open>Configuration keys\<close>

lemma args_get_head:
  "args_get cfg ''dataset_head|head'' =
     (case cfg ''dataset_head'' of
        Some v \<Rightarrow> v
      | None \<Rightarrow> (case cfg ''head'' of Some v \<Rightarrow> v | None \<Rightarrow> PNone))"
  by (simp add: args_get_def is_default_def split: option.splits)

lemma args_get_path:
  "args_get cfg ''dataset_path|dataset'' =
     (case cfg ''dataset_path'' of
        Some v \<Rightarrow> v
      | None \<Rightarrow> (case cfg ''dataset'' of Some v \<Rightarrow> v | None \<Rightarrow> PNone))"
  by (simp add: args_get_def is_default_def split: option.splits)

lemma args_get_split:
  "args_get cfg ''split|=test'' = (case cfg ''split'' of Some v \<Rightarrow> v | None \<Rightarrow> PStr ''test'')"
  by (simp add: args_get_def is_default_def split: option.splits)

lemma args_get_subset:
  "args_get cfg ''subset'' = (case cfg ''subset'' of Some v \<Rightarrow> v | None \<Rightarrow> PNone)"
  by (simp add: args_get_def is_default_def split: option.splits)

subsection \<open>Strings\<close>

lemma endswith_suffix: "endswith s suf \<longleftrightarrow> suffix suf s"
  unfolding endswith_def suffix_def
  by (metis append_eq_conv_conj append_take_drop_id diff_add_inverse2 length_append
      length_drop le_add2)

lemma py_strip_blank: "\<forall>c \<in> set l. py_isspace c \<Longrightarrow> py_strip l = []"
  by (auto simp: py_strip_def dest: set_dropWhileD)

lemma digit_char_value: "d < 10 \<Longrightarrow> of_char (digit_char d) = 48 + d"
proof -
  assume "d < 10"
  then have "d \<in> {0, 1, 2, 3, 4, 5, 6, 7, 8, 9}" by auto
  then show ?thesis by (auto simp: digit_char_def)
qed

text \<open>\<open>str_nat\<close> writes a number in decimal: reading the digits back gives the number.\<close>

lemma str_nat_decimal:
  "foldl (\<lambda>a c. 10 * a + (of_char c - 48)) 0 (str_nat n) = n"
proof (induction n rule: str_nat.induct)
  case (1 n)
  show ?case
  proof (cases "n < 10")
    case True
    then show ?thesis by (simp add: str_nat.simps [of n] digit_char_value)
  next
    case False
    with "1.IH" have "foldl (\<lambda>a c. 10 * a + (of_char c - 48)) 0 (str_nat (n div 10)) = n div 10"
      by simp
    with False show ?thesis
      by (simp add: str_nat.simps [of n] digit_char_value)
  qed
qed

subsection \<open>The loop of the synthetic loader\<close>

lemma foldl_append_map: "foldl (\<lambda>acc i. acc @ [f i]) acc xs = acc @ map f xs"
  by (induction xs arbitrary: acc) simp_all

lemma test_loop_map: "test_loop n = map test_record [1..n]"
  by (simp add: test_loop_def foldl_append_map)

lemma length_test_loop: "length (test_loop n) = nat n"
  by (simp add: test_loop_map)

lemma nth_test_loop: "i < nat n \<Longrightarrow> test_loop n ! i = test_record (int i + 1)"
  by (simp add: test_loop_map add.commute)

lemma upto_1_10: "[1..10] = [1, 2, 3, 4, 5, 6, 7, 8, 9, 10 :: int]"
  by code_simp

text \<open>
  The first generation returns the records 1 to \<open>n\<close> for every integer count; the second
  does so for every count but 0, and returns the records 1 to 10 for 0 and for no count.
\<close>

lemma load_v1_synthetic:
  "load_v1 w (TestDataLoader_v1 d (PInt n)) = ([], Inr (map test_record [1..n]))"
  by (simp add: test_loop_map)

lemma TestDataLoader_load_cap:
  "head self = PInt n \<Longrightarrow> n \<noteq> 0 \<Longrightarrow>
     TestDataLoader_load self = ([], Inr (map test_record [1..n]))"
  by (simp add: TestDataLoader_load_def py_or_def test_loop_map)

lemma TestDataLoader_load_default:
  "head self = PNone \<or> head self = PInt 0 \<Longrightarrow>
     TestDataLoader_load self = ([], Inr (map test_record [1..10]))"
  by (auto simp: TestDataLoader_load_def py_or_def test_loop_map)

subsection \<open>Truncation\<close>

lemma take_head_none: "take_head ds PNone = Inr ds"
  by (simp add: take_head_def)

lemma take_head_cap:
  "0 \<le> n \<Longrightarrow>
     take_head ds (PInt n) = Inr (if n < int (length ds) then take (nat n) ds else ds)"
  by (simp add: take_head_def slice_to_def)

lemma take_head_zero: "take_head ds (PInt 0) = Inr []"
  by (simp add: take_head_def slice_to_def)

lemma take_head_length:
  "take_head ds (PInt n) = Inr r \<Longrightarrow> 0 \<le> n \<Longrightarrow> length r \<le> nat n \<and> length r \<le> length ds"
  by (auto simp: take_head_def slice_to_def)

subsection \<open>Decoding the lines of a file\<close>

lemma parse_lines_rejects:
  "l \<in> set ls \<Longrightarrow> dec (py_strip l) = Inl m \<Longrightarrow>
     \<exists>msg bad. bad \<in> set ls \<and> dec (py_strip bad) = Inl msg
       \<and> parse_lines dec ls = Inl (JSONDecodeError msg)"
proof (induction ls)
  case Nil
  then show ?case by simp
next
  case (Cons a ls)
  show ?case
  proof (cases "dec (py_strip a)")
    case (Inl msg)
    then show ?thesis by auto
  next
    case (Inr v)
    with Cons.prems have "l \<in> set ls" by auto
    from Cons.IH [OF this Cons.prems(2)] obtain msg bad where
      "bad \<in> set ls" "dec (py_strip bad) = Inl msg"
      "parse_lines dec ls = Inl (JSONDecodeError msg)" by blast
    with Inr show ?thesis by auto
  qed
qed

lemma parse_lines_accepts:
  "map (\<lambda>l. dec (py_strip l)) ls = map Inr vs \<Longrightarrow> parse_lines dec ls = Inr vs"
  by (induction ls arbitrary: vs) auto

text \<open>The comprehension succeeds exactly when the decoder accepts every line.\<close>

lemma parse_lines_Inr_iff:
  "parse_lines dec ls = Inr vs \<longleftrightarrow> map (\<lambda>l. dec (py_strip l)) ls = map Inr vs"
proof (induction ls arbitrary: vs)
  case Nil
  then show ?case by auto
next
  case (Cons a ls)
  show ?case
  proof (cases "dec (py_strip a)")
    case (Inl m)
    then show ?thesis by (cases vs) auto
  next
    case (Inr v)
    note head_ok = this
    show ?thesis
    proof (cases "parse_lines dec ls")
      case (Inl e)
      with Cons.IH have "\<And>zs. map (\<lambda>l. dec (py_strip l)) ls \<noteq> map Inr zs" by simp
      with Inl head_ok show ?thesis by (cases vs) auto
    next
      case (Inr ws)
      with Cons.IH [of ws] have "map (\<lambda>l. dec (py_strip l)) ls = map Inr ws" by simp
      with Inr head_ok show ?thesis
        by (cases vs) (auto simp: inj_map_eq_map [OF inj_Inr])
    qed
  qed
qed

subsection \<open>Normalising a registry item\<close>

lemma foldl_update_fresh:
  "distinct (map fst acc @ map fst kvs) \<Longrightarrow>
     foldl (\<lambda>d (k, v). AList.update k v d) acc kvs = acc @ kvs"
proof (induction kvs arbitrary: acc)
  case Nil
  then show ?case by simp
next
  case (Cons kv kvs)
  obtain k v where kv: "kv = (k, v)" by (cases kv)
  have fresh: "k \<notin> fst ` set acc" using Cons.prems kv by auto
  have upd: "AList.update k v acc = acc @ [(k, v)]" using fresh
    by (induction acc) auto
  have "distinct (map fst (acc @ [(k, v)]) @ map fst kvs)" using Cons.prems kv by auto
  from Cons.IH [OF this] show ?case by (simp add: kv upd)
qed

lemma dict_of_items_distinct: "distinct (map fst kvs) \<Longrightarrow> dict_of_items kvs = PDict kvs"
  using foldl_update_fresh [of "[]" kvs] by (simp add: dict_of_items_def)

lemma fetch_plain:
  assumes "load_dataset w path (if truthy sub then Some sub else None) spl = Inr items"
      and "\<forall>item \<in> set items. distinct (map fst item)"
  shows "fetch w path sub spl =
           ([LoadDataset path (if truthy sub then Some sub else None) spl], Inr (map PDict items))"
proof -
  have "map dict_of_items items = map PDict items"
    using assms(2) by (simp add: dict_of_items_distinct)
  with assms(1) show ?thesis
    by (simp add: fetch_def Let_def)
qed

subsection \<open>The sample world\<close>

lemma sample_doc_simps:
  "sample_doc 1 = ''{'' @ [CHR 0x22] @ ''id'' @ [CHR 0x22] @ '': 1}''"
  "sample_doc 2 = ''{'' @ [CHR 0x22] @ ''id'' @ [CHR 0x22] @ '': 2}''"
  "sample_doc 3 = ''{'' @ [CHR 0x22] @ ''id'' @ [CHR 0x22] @ '': 3}''"
  "sample_doc 4 = ''{'' @ [CHR 0x22] @ ''id'' @ [CHR 0x22] @ '': 4}''"
  "sample_doc 5 = ''{'' @ [CHR 0x22] @ ''id'' @ [CHR 0x22] @ '': 5}''"
  by (simp_all add: sample_doc_def str_int_def str_nat.simps digit_char_def)

lemma sample_lines_decode:
  "map (\<lambda>l. json_loads sample_world (py_strip l)) sample_lines
     = map Inr [PDict [(''id'', PInt 1)], PDict [(''id'', PInt 2)], PDict [(''id'', PInt 3)],
                PDict [(''id'', PInt 4)], PDict [(''id'', PInt 5)]]"
  by (simp add: sample_world_def sample_lines_def sample_line_def sample_json_loads_def
      sample_doc_simps py_strip_def py_isspace_def)

subsection \<open>The branches of the factory\<close>

lemma create_calls_synthetic_iff:
  "fst (DataLoaderFactory_create ident dataset_args) = Some TestDataLoader_class
      \<longleftrightarrow> ident = PStr ''test''"
  by (cases ident) (auto simp: DataLoaderFactory_create_def)

lemma create_none:
  "DataLoaderFactory_create PNone dataset_args = (None, Inl AttributeError)"
  by (simp add: DataLoaderFactory_create_def)

lemma create_test:
  "DataLoaderFactory_create (PStr ''test'') dataset_args
     = (Some TestDataLoader_class, Inl TypeError)"
  by (simp add: DataLoaderFactory_create_def)

text \<open>Every loader the factory returns is a file or registry loader on the identifier.\<close>

lemma create_returned_loader:
  "snd (DataLoaderFactory_create ident dataset_args) = Inr (Loader cls p a h) \<Longrightarrow>
   cls \<noteq> TestDataLoader_class \<and> ident = PStr p \<and> ident \<noteq> PStr ''test''"
proof (cases ident)
  case (PStr s)
  assume r: "snd (DataLoaderFactory_create ident dataset_args) = Inr (Loader cls p a h)"
  show ?thesis
  proof (cases "s = ''test''")
    case True
    with PStr r show ?thesis by (simp add: DataLoaderFactory_create_def)
  next
    case False
    show ?thesis
    proof (cases "endswith s ''.jsonl''")
      case True
      with PStr False r
      have "DataLoader_new JSONDataLoader_class s dataset_args = Inr (Loader cls p a h)"
        by (simp add: DataLoaderFactory_create_def)
      then have "cls = JSONDataLoader_class \<and> p = s"
        by (simp add: DataLoader_new_def split: sum.splits)
      with PStr False show ?thesis by simp
    next
      case e: False
      with PStr False r
      have "DataLoader_new HFDataLoader_class s dataset_args = Inr (Loader cls p a h)"
        by (simp add: DataLoaderFactory_create_def)
      then have "cls = HFDataLoader_class \<and> p = s"
        by (simp add: DataLoader_new_def split: sum.splits)
      with PStr False show ?thesis by simp
    qed
  qed
qed (simp_all add: DataLoaderFactory_create_def)

section \<open>The claims\<close>

text \<open>
  C1: with a cap of 0 every loader returns the empty sequence. The file loader and the
  registry loader do (\<open>take_head_zero\<close>, once the file is read or the items are fetched).
  The synthetic loader of the second generation does not: \<open>self.head or 10\<close> reads the cap
  0 as no cap, and the dispatcher returns the ten default records for the configuration
  that holds \<open>head = 0\<close> and no dataset identifier.
\<close>

theorem head_zero_synthetic_not_empty:
  "load_testdata w [''head'' \<mapsto> PInt 0]
     = ([], Inr (map test_record [1, 2, 3, 4, 5, 6, 7, 8, 9, 10]))
   \<and> load_testdata w [''head'' \<mapsto> PInt 0] \<noteq> ([], Inr [])"
  by (simp add: load_testdata_def args_get_path args_get_head DataLoader_init_def
      TestDataLoader_load_default upto_1_10)

text \<open>
  C2: the length of what \<open>load\<close> returns is at most the cap. For the file loader and the
  registry loader this is \<open>take_head_length\<close>. The synthetic loader of the second
  generation, built with the cap 0, returns a sequence of length 10.
\<close>

theorem head_zero_synthetic_exceeds_cap:
  "snd (TestDataLoader_load (DataLoader_init ''dataset/dummy'' [''head'' \<mapsto> PInt 0]))
     = Inr (test_loop 10)
   \<and> length (test_loop 10) = 10"
  by (simp add: TestDataLoader_load_def DataLoader_init_def args_get_head py_or_def
      length_test_loop)

text \<open>
  C3: the dispatcher \<open>load_testdata(args)\<close> reads the identifier from \<open>dataset_path\<close>, or
  from \<open>dataset\<close> when that is absent. With no identifier it runs the synthetic loader on
  the path \<open>dataset/dummy\<close>; with an identifier that ends in \<open>.jsonl\<close> it runs the file
  loader on it; with any other string it runs the registry loader on it. Each loader is
  built from the whole configuration, and nothing but the identifier enters the choice.
\<close>

theorem load_testdata_selects_by_identifier:
  assumes "ident = args_get cfg ''dataset_path|dataset''"
  shows "ident = (case cfg ''dataset_path'' of
                    Some v \<Rightarrow> v
                  | None \<Rightarrow> (case cfg ''dataset'' of Some v \<Rightarrow> v | None \<Rightarrow> PNone))
       \<and> (ident = PNone \<longrightarrow>
            load_testdata w cfg = TestDataLoader_load (DataLoader_init ''dataset/dummy'' cfg))
       \<and> (\<forall>path. ident = PStr path \<and> suffix ''.jsonl'' path \<longrightarrow>
            load_testdata w cfg = JSONDataLoader_load w (DataLoader_init path cfg))
       \<and> (\<forall>path. ident = PStr path \<and> \<not> suffix ''.jsonl'' path \<longrightarrow>
            load_testdata w cfg = HFDataLoader_load w (DataLoader_init path cfg))"
  using assms by (simp add: load_testdata_def args_get_path endswith_suffix)

theorem load_testdata_selects_by_identifier_witness:
  "load_testdata sample_world Map.empty
     = TestDataLoader_load (DataLoader_init ''dataset/dummy'' Map.empty)
   \<and> suffix ''.jsonl'' ''data/sample.jsonl''
   \<and> load_testdata sample_world [''dataset_path'' \<mapsto> PStr ''data/sample.jsonl'']
       = JSONDataLoader_load sample_world
           (DataLoader_init ''data/sample.jsonl'' [''dataset_path'' \<mapsto> PStr ''data/sample.jsonl''])
   \<and> \<not> suffix ''.jsonl'' ''org/plain''
   \<and> load_testdata sample_world [''dataset'' \<mapsto> PStr ''org/plain'']
       = HFDataLoader_load sample_world
           (DataLoader_init ''org/plain'' [''dataset'' \<mapsto> PStr ''org/plain''])"
proof -
  have s1: "suffix ''.jsonl'' ''data/sample.jsonl''"
    by (simp add: endswith_suffix [symmetric] endswith_def)
  have s2: "\<not> suffix ''.jsonl'' ''org/plain''"
    by (simp add: endswith_suffix [symmetric] endswith_def)
  have i1: "args_get Map.empty ''dataset_path|dataset'' = PNone"
    by (simp add: args_get_path)
  have i2: "args_get [''dataset_path'' \<mapsto> PStr ''data/sample.jsonl''] ''dataset_path|dataset''
              = PStr ''data/sample.jsonl''"
    by (simp add: args_get_path)
  have i3: "args_get [''dataset'' \<mapsto> PStr ''org/plain''] ''dataset_path|dataset''
              = PStr ''org/plain''"
    by (simp add: args_get_path)
  show ?thesis
    using s1 s2
      load_testdata_selects_by_identifier [OF i1 [symmetric], of sample_world]
      load_testdata_selects_by_identifier [OF i2 [symmetric], of sample_world]
      load_testdata_selects_by_identifier [OF i3 [symmetric], of sample_world]
    by simp
qed

text \<open>
  C4: for a file that exists and whose lines the decoder all accepts, the file loader of
  either generation returns the decoded objects in the order of the lines: the first
  \<open>n\<close> of them when the cap is an integer \<open>n\<close> (not negative, as a cap is) below their
  number, all of them otherwise.
\<close>

theorem file_loader_records_in_file_order:
  assumes "files w path = Some ls"
      and "map (\<lambda>l. json_loads w (py_strip l)) ls = map Inr recs"
      and "cap = PNone \<or> (\<exists>n. cap = PInt n \<and> 0 \<le> n)"
      and "dataset_path self = path" and "head self = cap"
  shows "JSONDataLoader_load w self =
           ([Open path], Inr (case cap of
                                PInt n \<Rightarrow> if n < int (length recs) then take (nat n) recs else recs
                              | _ \<Rightarrow> recs))
       \<and> load_v1 w (JSONDataLoader_v1 path d cap) =
           ([Open path], Inr (case cap of
                                PInt n \<Rightarrow> if n < int (length recs) then take (nat n) recs else recs
                              | _ \<Rightarrow> recs))"
proof -
  have parsed: "read_jsonl w path = Inr recs"
    using assms(1,2) by (simp add: read_jsonl_def parse_lines_accepts)
  have cut: "take_head recs cap =
      Inr (case cap of PInt n \<Rightarrow> if n < int (length recs) then take (nat n) recs else recs
           | _ \<Rightarrow> recs)"
    using assms(3) by (auto simp: take_head_cap take_head_none)
  show ?thesis
    using parsed cut assms(4,5) by (simp add: JSONDataLoader_load_def)
qed

theorem file_loader_records_in_file_order_witness:
  "files sample_world ''data/sample.jsonl'' = Some sample_lines
   \<and> length sample_lines = 5
   \<and> JSONDataLoader_load sample_world
        (DataLoader_init ''data/sample.jsonl''
           [''dataset_path'' \<mapsto> PStr ''data/sample.jsonl'', ''head'' \<mapsto> PInt 2])
       = ([Open ''data/sample.jsonl''], Inr [PDict [(''id'', PInt 1)], PDict [(''id'', PInt 2)]])
   \<and> load_v1 sample_world (JSONDataLoader_v1 ''data/sample.jsonl'' Map.empty (PInt 2))
       = ([Open ''data/sample.jsonl''], Inr [PDict [(''id'', PInt 1)], PDict [(''id'', PInt 2)]])"
proof -
  have f: "files sample_world ''data/sample.jsonl'' = Some sample_lines"
    by (simp add: sample_world_def)
  have c: "PInt 2 = PNone \<or> (\<exists>n. PInt 2 = PInt n \<and> 0 \<le> n)"
    by simp
  have p: "dataset_path (DataLoader_init ''data/sample.jsonl''
             [''dataset_path'' \<mapsto> PStr ''data/sample.jsonl'', ''head'' \<mapsto> PInt 2])
           = ''data/sample.jsonl''"
    by (simp add: DataLoader_init_def)
  have h: "head (DataLoader_init ''data/sample.jsonl''
             [''dataset_path'' \<mapsto> PStr ''data/sample.jsonl'', ''head'' \<mapsto> PInt 2]) = PInt 2"
    by (simp add: DataLoader_init_def args_get_head)
  show ?thesis
    using f file_loader_records_in_file_order [OF f sample_lines_decode c p h, of Map.empty]
    by (simp add: sample_lines_def)
qed

text \<open>
  C5: for a path that does not exist, the file loader of either generation opens the path
  once and fails with \<open>FileNotFoundError\<close>; the message is \<open>The file\<close>, the path and
  \<open>does not exist.\<close>, so it holds the path.
\<close>

theorem file_loader_missing_path:
  assumes "files w path = None" and "dataset_path self = path"
  shows "JSONDataLoader_load w self =
           ([Open path], Inl (FileNotFoundError (''The file '' @ path @ '' does not exist.'')))
       \<and> load_v1 w (JSONDataLoader_v1 path d n) =
           ([Open path], Inl (FileNotFoundError (''The file '' @ path @ '' does not exist.'')))"
  using assms by (simp add: JSONDataLoader_load_def read_jsonl_def)

theorem file_loader_missing_path_witness:
  "files sample_world ''data/none.jsonl'' = None
   \<and> JSONDataLoader_load sample_world (DataLoader_init ''data/none.jsonl'' Map.empty)
       = ([Open ''data/none.jsonl''],
          Inl (FileNotFoundError ''The file data/none.jsonl does not exist.''))
   \<and> load_v1 sample_world (JSONDataLoader_v1 ''data/none.jsonl'' Map.empty PNone)
       = ([Open ''data/none.jsonl''],
          Inl (FileNotFoundError ''The file data/none.jsonl does not exist.''))"
proof -
  have f: "files sample_world ''data/none.jsonl'' = None"
    by (simp add: sample_world_def)
  have p: "dataset_path (DataLoader_init ''data/none.jsonl'' Map.empty) = ''data/none.jsonl''"
    by (simp add: DataLoader_init_def)
  show ?thesis
    using f file_loader_missing_path [OF f p, of Map.empty PNone] by simp
qed

text \<open>
  C6: when the decoder rejects at least one line of an existing file, the file loader of
  either generation fails with the \<open>JSONDecodeError\<close> of a rejected line, whatever the
  cap is: the outcome is the error, with no record beside it.
\<close>

theorem file_loader_malformed_line_fails:
  assumes "files w path = Some ls" and "l \<in> set ls" and "json_loads w (py_strip l) = Inl m"
      and "dataset_path self = path"
  shows "\<exists>msg bad. bad \<in> set ls \<and> json_loads w (py_strip bad) = Inl msg
           \<and> JSONDataLoader_load w self = ([Open path], Inl (JSONDecodeError msg))
           \<and> load_v1 w (JSONDataLoader_v1 path d n) = ([Open path], Inl (JSONDecodeError msg))"
proof -
  from parse_lines_rejects [of l ls "json_loads w" m, OF assms(2,3)] obtain msg bad where
    "bad \<in> set ls" "json_loads w (py_strip bad) = Inl msg"
    "parse_lines (json_loads w) ls = Inl (JSONDecodeError msg)" by blast
  with assms(1,4) show ?thesis
    by (auto simp: JSONDataLoader_load_def read_jsonl_def)
qed

theorem file_loader_malformed_line_fails_witness:
  "files sample_world ''data/broken.jsonl'' = Some broken_lines
   \<and> ''{id: 2}'' @ [CHR 0x0A] \<in> set broken_lines
   \<and> json_loads sample_world (py_strip (''{id: 2}'' @ [CHR 0x0A])) = Inl ''Expecting value''
   \<and> (\<exists>msg. JSONDataLoader_load sample_world
                (DataLoader_init ''data/broken.jsonl'' [''head'' \<mapsto> PInt 0])
              = ([Open ''data/broken.jsonl''], Inl (JSONDecodeError msg)))"
proof -
  have f: "files sample_world ''data/broken.jsonl'' = Some broken_lines"
    by (simp add: sample_world_def)
  have m: "''{id: 2}'' @ [CHR 0x0A] \<in> set broken_lines"
    by (simp add: broken_lines_def)
  have j: "json_loads sample_world (py_strip (''{id: 2}'' @ [CHR 0x0A])) = Inl ''Expecting value''"
    by (simp add: sample_world_def sample_json_loads_def sample_doc_simps py_strip_def
        py_isspace_def)
  have p: "dataset_path (DataLoader_init ''data/broken.jsonl'' [''head'' \<mapsto> PInt 0])
             = ''data/broken.jsonl''"
    by (simp add: DataLoader_init_def)
  show ?thesis
    using f m j file_loader_malformed_line_fails [OF f m j p] by blast
qed

text \<open>
  C7: for a count \<open>n\<close> that is not negative the synthetic loader returns the \<open>n\<close> records
  templated with 1 to \<open>n\<close>, and the empty sequence for 0. The first generation does
  (\<open>load_v1_synthetic\<close>), and the second does for every count but 0
  (\<open>TestDataLoader_load_cap\<close>). At the count 0 the two generations part: the first returns
  the empty sequence, the second ten records, of which the first is the record of 1.
\<close>

theorem synthetic_zero_count_generations_differ:
  "load_v1 w (TestDataLoader_init_v1 (Some [''num'' \<mapsto> PInt 0])) = ([], Inr [])
   \<and> (\<exists>recs. TestDataLoader_load (DataLoader_init ''dataset/dummy'' [''dataset_head'' \<mapsto> PInt 0])
                = ([], Inr recs)
        \<and> length recs = 10
        \<and> recs ! 0 = PDict [(''task_id'', PStr ''test_1''), (''prompt'', PStr ''test_prompt_1''),
             (''canonical_solution'', PStr ''test_solution_1''), (''test'', PStr ''test_test_1''),
             (''entry_point'', PStr ''test_entry_1'')])"
  by (simp add: TestDataLoader_init_v1_def args_or_empty_def dict_get_def test_loop_map
      TestDataLoader_load_def DataLoader_init_def args_get_head py_or_def upto_1_10
      test_record_def str_int_def str_nat.simps digit_char_def)

text \<open>
  C8: the registry loader of either generation calls the collaborator once, with the
  configured identifier, with the configured subset as the positional argument (left out
  when no subset is configured: absent, \<open>None\<close> or empty) and with the configured split
  (\<open>test\<close> when absent). Each item returned, a mapping with distinct keys, comes back as
  a plain dictionary of the same pairs, and the cap keeps the first \<open>n\<close> of the
  normalised items.
\<close>

theorem registry_loader_call_and_result:
  assumes "split_arg = (case cfg ''split'' of Some v \<Rightarrow> v | None \<Rightarrow> PStr ''test'')"
      and "positional = (case cfg ''subset'' of
                           Some v \<Rightarrow> if truthy v then Some v else None
                         | None \<Rightarrow> None)"
      and "cap = PNone \<or> (\<exists>n. cap = PInt n \<and> 0 \<le> n)"
      and "load_dataset w path positional split_arg = Inr items"
      and "\<forall>item \<in> set items. distinct (map fst item)"
      and "dataset_path self = path" and "args self = cfg" and "head self = cap"
  shows "HFDataLoader_load w self =
           ([LoadDataset path positional split_arg],
            Inr (case cap of PInt n \<Rightarrow> take (nat n) (map PDict items) | _ \<Rightarrow> map PDict items))
       \<and> load_v1 w (HFDataLoader_v1 path cfg cap) =
           ([LoadDataset path positional split_arg],
            Inr (case cap of PInt n \<Rightarrow> take (nat n) (map PDict items) | _ \<Rightarrow> map PDict items))"
proof -
  define sub where "sub = (case cfg ''subset'' of Some v \<Rightarrow> v | None \<Rightarrow> PNone)"
  have pos: "positional = (if truthy sub then Some sub else None)"
    using assms(2) by (simp add: sub_def split: option.splits)
  have got: "fetch w path sub split_arg =
      ([LoadDataset path positional split_arg], Inr (map PDict items))"
    using fetch_plain [of w path sub split_arg items] assms(4,5) pos by simp
  have cut: "take_head (map PDict items) cap =
      Inr (case cap of PInt n \<Rightarrow> take (nat n) (map PDict items) | _ \<Rightarrow> map PDict items)"
    using assms(3) by (auto simp: take_head_def slice_to_def)
  have v2: "HFDataLoader_load w self =
      ([LoadDataset path positional split_arg],
       Inr (case cap of PInt n \<Rightarrow> take (nat n) (map PDict items) | _ \<Rightarrow> map PDict items))"
    using got cut assms(1,6,7,8)
    by (simp add: HFDataLoader_load_def args_get_split args_get_subset sub_def)
  have v1: "load_v1 w (HFDataLoader_v1 path cfg cap) =
      ([LoadDataset path positional split_arg],
       Inr (case cap of PInt n \<Rightarrow> take (nat n) (map PDict items) | _ \<Rightarrow> map PDict items))"
    using got cut assms(1)
    by (simp add: dict_get_def sub_def)
  from v2 v1 show ?thesis by simp
qed

theorem registry_loader_call_and_result_witness:
  "load_dataset sample_world ''org/dataset'' (Some (PStr ''en'')) (PStr ''validation'')
     = Inr sample_items
   \<and> list_all (\<lambda>item. distinct (map fst item)) sample_items
   \<and> HFDataLoader_load sample_world
        (DataLoader_init ''org/dataset''
           [''dataset_path'' \<mapsto> PStr ''org/dataset'', ''subset'' \<mapsto> PStr ''en'',
            ''split'' \<mapsto> PStr ''validation'', ''head'' \<mapsto> PInt 3])
       = ([LoadDataset ''org/dataset'' (Some (PStr ''en'')) (PStr ''validation'')],
          Inr [PDict [(''text'', PStr ''a''), (''label'', PInt 0)],
               PDict [(''text'', PStr ''b''), (''label'', PInt 1)],
               PDict [(''text'', PStr ''c''), (''label'', PInt 0)]])"
proof -
  let ?cfg = "[''dataset_path'' \<mapsto> PStr ''org/dataset'', ''subset'' \<mapsto> PStr ''en'',
               ''split'' \<mapsto> PStr ''validation'', ''head'' \<mapsto> PInt 3]"
  have s: "PStr ''validation'' = (case ?cfg ''split'' of Some v \<Rightarrow> v | None \<Rightarrow> PStr ''test'')"
    by simp
  have p: "Some (PStr ''en'') = (case ?cfg ''subset'' of
             Some v \<Rightarrow> if truthy v then Some v else None | None \<Rightarrow> None)"
    by simp
  have c: "PInt 3 = PNone \<or> (\<exists>n. PInt 3 = PInt n \<and> 0 \<le> n)"
    by simp
  have l: "load_dataset sample_world ''org/dataset'' (Some (PStr ''en'')) (PStr ''validation'')
             = Inr sample_items"
    by (simp add: sample_world_def)
  have d: "\<forall>item \<in> set sample_items. distinct (map fst item)"
    by (simp add: sample_items_def)
  have f1: "dataset_path (DataLoader_init ''org/dataset'' ?cfg) = ''org/dataset''"
    by (simp add: DataLoader_init_def)
  have f2: "args (DataLoader_init ''org/dataset'' ?cfg) = ?cfg"
    by (simp add: DataLoader_init_def)
  have f3: "head (DataLoader_init ''org/dataset'' ?cfg) = PInt 3"
    by (simp add: DataLoader_init_def args_get_head)
  show ?thesis
    using l d registry_loader_call_and_result [OF s p c l d f1 f2 f3]
    by (simp add: sample_items_def list_all_iff)
qed

text \<open>
  C9: \<open>DataLoaderFactory.create\<close> takes the branch of the synthetic loader, the call of the
  class \<open>TestDataLoader\<close>, exactly when the identifier is the string \<open>test\<close>. For the
  identifier \<open>None\<close> it calls no class: the comparison with \<open>"test"\<close> fails and the call of
  \<open>endswith\<close> that follows raises \<open>AttributeError\<close>. (In the module as loaded the call
  \<open>TestDataLoader(dataset_args)\<close> itself ends in \<open>TypeError\<close>, and every loader the factory
  returns is a file loader or a registry loader on the identifier.)
\<close>

theorem factory_synthetic_only_for_test:
  "(fst (DataLoaderFactory_create ident dataset_args) = Some TestDataLoader_class
      \<longleftrightarrow> ident = PStr ''test'')
   \<and> DataLoaderFactory_create PNone dataset_args = (None, Inl AttributeError)
   \<and> DataLoaderFactory_create (PStr ''test'') dataset_args
       = (Some TestDataLoader_class, Inl TypeError)
   \<and> (\<forall>cls p a h.
         snd (DataLoaderFactory_create ident dataset_args) = Inr (Loader cls p a h)
         \<longrightarrow> cls \<noteq> TestDataLoader_class \<and> ident = PStr p \<and> ident \<noteq> PStr ''test'')"
proof (intro conjI allI impI)
  show "fst (DataLoaderFactory_create ident dataset_args) = Some TestDataLoader_class
      \<longleftrightarrow> ident = PStr ''test''" by (rule create_calls_synthetic_iff)
  show "DataLoaderFactory_create PNone dataset_args = (None, Inl AttributeError)" by (rule create_none)
  show "DataLoaderFactory_create (PStr ''test'') dataset_args
       = (Some TestDataLoader_class, Inl TypeError)" by (rule create_test)
next
  fix cls p a h
  assume r: "snd (DataLoaderFactory_create ident dataset_args) = Inr (Loader cls p a h)"
  note facts = create_returned_loader [OF r]
  from facts show "cls \<noteq> TestDataLoader_class" by (rule conjunct1)
  from facts show "ident = PStr p" by (rule conjunct1 [OF conjunct2])
  from facts show "ident \<noteq> PStr ''test''" by (rule conjunct2 [OF conjunct2])
qed

theorem factory_synthetic_only_for_test_witness:
  "fst (DataLoaderFactory_create (PStr ''test'') ArgsNone) = Some TestDataLoader_class
   \<and> fst (DataLoaderFactory_create PNone ArgsNone) \<noteq> Some TestDataLoader_class
   \<and> DataLoaderFactory_create PNone ArgsNone = (None, Inl AttributeError)
   \<and> DataLoaderFactory_create (PStr ''test'') (ArgsConfig [''head'' \<mapsto> PInt 3])
       = (Some TestDataLoader_class, Inl TypeError)
   \<and> DataLoaderFactory_create (PStr ''data/sample.jsonl'') (ArgsConfig [''head'' \<mapsto> PInt 3])
       = (Some JSONDataLoader_class,
          Inr (Loader JSONDataLoader_class ''data/sample.jsonl''
                 (ArgsConfig [''head'' \<mapsto> PInt 3]) (PInt 3)))
   \<and> JSONDataLoader_class \<noteq> TestDataLoader_class"
proof -
  have e: "DataLoaderFactory_create (PStr ''data/sample.jsonl'') (ArgsConfig [''head'' \<mapsto> PInt 3])
       = (Some JSONDataLoader_class,
          Inr (Loader JSONDataLoader_class ''data/sample.jsonl''
                 (ArgsConfig [''head'' \<mapsto> PInt 3]) (PInt 3)))"
    by (simp add: DataLoaderFactory_create_def endswith_def DataLoader_new_def
        args_subscript_def args_get_head)
  have t: "PStr ''test'' = PStr ''test''" by simp
  from factory_synthetic_only_for_test [of "PStr ''test''" ArgsNone] t
  have w1: "fst (DataLoaderFactory_create (PStr ''test'') ArgsNone) = Some TestDataLoader_class"
    by blast
  have n: "PNone \<noteq> PStr ''test''" by simp
  from factory_synthetic_only_for_test [of PNone ArgsNone] n
  have w2: "fst (DataLoaderFactory_create PNone ArgsNone) \<noteq> Some TestDataLoader_class"
    and w3: "DataLoaderFactory_create PNone ArgsNone = (None, Inl AttributeError)"
    by blast+
  from factory_synthetic_only_for_test [of PNone "ArgsConfig [''head'' \<mapsto> PInt 3]"]
  have w4: "DataLoaderFactory_create (PStr ''test'') (ArgsConfig [''head'' \<mapsto> PInt 3])
       = (Some TestDataLoader_class, Inl TypeError)"
    by blast
  from e have "snd (DataLoaderFactory_create (PStr ''data/sample.jsonl'')
                 (ArgsConfig [''head'' \<mapsto> PInt 3]))
       = Inr (Loader JSONDataLoader_class ''data/sample.jsonl''
                 (ArgsConfig [''head'' \<mapsto> PInt 3]) (PInt 3))"
    by simp
  with factory_synthetic_only_for_test
        [of "PStr ''data/sample.jsonl''" "ArgsConfig [''head'' \<mapsto> PInt 3]"]
  have w5: "JSONDataLoader_class \<noteq> TestDataLoader_class"
    by blast
  from w1 w2 w3 w4 e w5 show ?thesis by (intro conjI)
qed

text \<open>
  C10: a line of white space only is stripped to the empty text and handed to the
  decoder, which rejects a text that holds no value. So for an existing file with such a
  line the file loader of either generation fails with \<open>JSONDecodeError\<close> and returns no
  record list.
\<close>

theorem file_loader_blank_line_fails:
  assumes "files w path = Some ls" and "l \<in> set ls" and "\<forall>c \<in> set l. py_isspace c"
      and "json_loads w [] = Inl m" and "dataset_path self = path"
  shows "\<exists>msg. JSONDataLoader_load w self = ([Open path], Inl (JSONDecodeError msg))
           \<and> load_v1 w (JSONDataLoader_v1 path d n) = ([Open path], Inl (JSONDecodeError msg))"
proof -
  have "json_loads w (py_strip l) = Inl m"
    using assms(3,4) by (simp add: py_strip_blank)
  from parse_lines_rejects [of l ls "json_loads w" m, OF assms(2) this] obtain msg where
    "parse_lines (json_loads w) ls = Inl (JSONDecodeError msg)" by blast
  with assms(1,5) show ?thesis
    by (auto simp: JSONDataLoader_load_def read_jsonl_def)
qed

theorem file_loader_blank_line_fails_witness:
  "files sample_world ''data/gap.jsonl'' = Some gap_lines
   \<and> [CHR 0x0A] \<in> set gap_lines
   \<and> py_isspace (CHR 0x0A)
   \<and> json_loads sample_world [] = Inl ''Expecting value''
   \<and> (\<exists>msg. JSONDataLoader_load sample_world (DataLoader_init ''data/gap.jsonl'' Map.empty)
              = ([Open ''data/gap.jsonl''], Inl (JSONDecodeError msg))
            \<and> load_v1 sample_world (JSONDataLoader_v1 ''data/gap.jsonl'' Map.empty PNone)
              = ([Open ''data/gap.jsonl''], Inl (JSONDecodeError msg)))"
proof -
  have f: "files sample_world ''data/gap.jsonl'' = Some gap_lines"
    by (simp add: sample_world_def)
  have m: "[CHR 0x0A] \<in> set gap_lines"
    by (simp add: gap_lines_def)
  have b: "\<forall>c \<in> set [CHR 0x0A]. py_isspace c"
    by (simp add: py_isspace_def)
  have j: "json_loads sample_world [] = Inl ''Expecting value''"
    by (simp add: sample_world_def sample_json_loads_def sample_doc_simps)
  have p: "dataset_path (DataLoader_init ''data/gap.jsonl'' Map.empty) = ''data/gap.jsonl''"
    by (simp add: DataLoader_init_def)
  show ?thesis
    using f m b j file_loader_blank_line_fails [OF f m b j p, of Map.empty PNone] by auto
qed

end
